theory Spec2Isabelle
  imports Main
begin

section \<open>Python values\<close>

text \<open>
  A Python \<open>str\<close> is a sequence of Unicode code points, so it is modelled as a list of
  naturals: indexing and \<open>len\<close> count code points. \<open>py\<close> turns an ASCII literal of
  the source into such a string.
\<close>

type_synonym pystr = "nat list"

definition py :: "string \<Rightarrow> pystr" where
  "py s = map of_char s"

text \<open>
  A float is kept as mantissa and binary exponent (the value \<open>m * 2 ^ e\<close>), or as one of
  the non-finite values that Python's decoder also accepts. The program only ever asks
  whether a float is zero.
\<close>

datatype pyfloat = Float int int | Inf bool | NaN

text \<open>
  The objects that \<open>response.json()\<close> can produce, which are also all the objects that
  \<open>get_kannada_transliteration\<close> can return: \<open>None\<close>, booleans, integers, floats,
  strings, lists, and dictionaries with string keys (kept in insertion order).
\<close>

datatype pyval =
    PNone
  | PBool bool
  | PInt int
  | PFloat pyfloat
  | PStr pystr
  | PList "pyval list"
  | PDict "(pystr \<times> pyval) list"

text \<open>
  The exceptions that can arise in the program. \<open>JSONDecodeError\<close> is the class of the
  standard \<open>json\<close> module, which the source names in its second handler;
  \<open>RequestsJSONDecodeError\<close> is \<open>requests.exceptions.JSONDecodeError\<close>, the class
  that \<open>Response.json()\<close> raises from requests 2.27 on, which derives both from
  \<open>RequestException\<close> (through \<open>InvalidJSONError\<close>) and from the standard class.
\<close>

datatype exn =
    ConnectionError
  | Timeout
  | HTTPError nat
  | JSONDecodeError
  | RequestsJSONDecodeError
  | IndexError
  | TypeError
  | KeyError
  | UnboundLocalError
  | EOFError

fun is_RequestException :: "exn \<Rightarrow> bool" where
  "is_RequestException ConnectionError = True"
| "is_RequestException Timeout = True"
| "is_RequestException (HTTPError _) = True"
| "is_RequestException RequestsJSONDecodeError = True"
| "is_RequestException _ = False"

fun is_JSONDecodeError :: "exn \<Rightarrow> bool" where
  "is_JSONDecodeError JSONDecodeError = True"
| "is_JSONDecodeError RequestsJSONDecodeError = True"
| "is_JSONDecodeError _ = False"

text \<open>Sequencing of computations that may raise: the first exception wins.\<close>

definition bind :: "exn + 'a \<Rightarrow> ('a \<Rightarrow> exn + 'b) \<Rightarrow> exn + 'b" where
  "bind m f = (case m of Inl e \<Rightarrow> Inl e | Inr x \<Rightarrow> f x)"

text \<open>
  \<open>v[i]\<close> for a literal index \<open>i \<ge> 0\<close>. A list or a string out of range raises
  \<open>IndexError\<close>; a string in range gives the one-character string; a dictionary is looked
  up by key, and no string key equals an integer, so the lookup raises \<open>KeyError\<close>;
  \<open>None\<close>, booleans and numbers are not subscriptable and raise \<open>TypeError\<close>.
\<close>

fun getitem :: "pyval \<Rightarrow> nat \<Rightarrow> exn + pyval" where
  "getitem (PList xs) i = (if i < length xs then Inr (xs ! i) else Inl IndexError)"
| "getitem (PStr s) i = (if i < length s then Inr (PStr [s ! i]) else Inl IndexError)"
| "getitem (PDict d) i = Inl KeyError"
| "getitem PNone i = Inl TypeError"
| "getitem (PBool b) i = Inl TypeError"
| "getitem (PInt n) i = Inl TypeError"
| "getitem (PFloat f) i = Inl TypeError"

text \<open>Truth value of an object, as \<open>and\<close>, \<open>if\<close> and \<open>not\<close> test it.\<close>

fun truthy :: "pyval \<Rightarrow> bool" where
  "truthy PNone = False"
| "truthy (PBool b) = b"
| "truthy (PInt n) = (n \<noteq> 0)"
| "truthy (PFloat (Float m e)) = (m \<noteq> 0)"
| "truthy (PFloat (Inf s)) = True"
| "truthy (PFloat NaN) = True"
| "truthy (PStr s) = (s \<noteq> [])"
| "truthy (PList xs) = (xs \<noteq> [])"
| "truthy (PDict d) = (d \<noteq> [])"

section \<open>The HTTP layer\<close>

text \<open>
  What the program hands to \<open>requests.get\<close>: the URL and the query parameters, in the
  order of the source's dictionary.
\<close>

record request =
  url :: pystr
  params :: "(pystr \<times> pyval) list"

text \<open>
  A \<open>Response\<close> object, reduced to what the program reads: its status code, its
  \<open>text\<close>, and what its \<open>json()\<close> method does (return the decoded value or raise).
\<close>

record response =
  status_code :: nat
  resp_text :: pystr
  resp_json :: "exn + pyval"

text \<open>The network: what \<open>requests.get\<close> does with a request.\<close>

type_synonym network = "request \<Rightarrow> exn + response"

text \<open>\<open>response.raise_for_status()\<close>: raises for the 4xx and 5xx status codes.\<close>

definition raise_for_status :: "response \<Rightarrow> exn + unit" where
  "raise_for_status r =
     (if 400 \<le> status_code r \<and> status_code r < 600 then Inl (HTTPError (status_code r))
      else Inr ())"

section \<open>Observable events\<close>

text \<open>What the program prints, one constructor per \<open>print\<close> or prompt of the source.\<close>

datatype printed =
    ErrorDuringRequest exn
  | CouldNotDecode pystr
  | ErrorParsing exn pyval
  | Prompt
  | AnErrorOccurred
  | NoSuggestionsFound
  | SuggestionsHeader
  | SuggestionLine nat pyval
  | Separator

datatype event = HttpGet request | Print printed

section \<open>get_kannada_transliteration\<close>

definition SUCCESS :: pystr where
  "SUCCESS = py ''SUCCESS''"

definition api_url :: pystr where
  "api_url = py ''https://inputtools.google.com/request''"

definition build_request :: "pystr \<Rightarrow> request" where
  "build_request input_text =
     \<lparr>url = api_url,
      params =
        [(py ''text'', PStr input_text),
         (py ''itc'', PStr (py ''kn-t-i0-und'')),
         (py ''num'', PInt 5),
         (py ''cp'', PInt 0),
         (py ''cs'', PInt 1),
         (py ''ie'', PStr (py ''utf-8'')),
         (py ''oe'', PStr (py ''utf-8'')),
         (py ''app'', PStr (py ''demopage''))]\<rparr>"

text \<open>
  Lines 61 to 66: the test \<open>data[0] == "SUCCESS" and data[1]\<close> (the right operand is
  only evaluated when the left one holds), then \<open>data[1][0][1]\<close>, returned as it is, or
  the empty list.
\<close>

definition extract_suggestions :: "pyval \<Rightarrow> exn + pyval" where
  "extract_suggestions data =
     bind (getitem data 0) (\<lambda>status.
       if status = PStr SUCCESS then
         bind (getitem data 1) (\<lambda>payload.
           if truthy payload then
             bind (getitem data 1) (\<lambda>p. bind (getitem p 0) (\<lambda>entry. getitem entry 1))
           else Inr (PList []))
       else Inr (PList []))"

text \<open>
  The three \<open>except\<close> clauses, tried in the order of the source. The second reads
  \<open>response\<close> and the third reads \<open>data\<close>, which are unbound when the exception came
  before their assignment. An exception that no clause matches leaves the function.
\<close>

definition except_clauses ::
  "response option \<Rightarrow> pyval option \<Rightarrow> exn \<Rightarrow> event list \<times> (exn + pyval)" where
  "except_clauses response data e =
     (if is_RequestException e then ([Print (ErrorDuringRequest e)], Inr PNone)
      else if is_JSONDecodeError e then
        (case response of
           None \<Rightarrow> ([], Inl UnboundLocalError)
         | Some r \<Rightarrow> ([Print (CouldNotDecode (resp_text r))], Inr PNone))
      else if e = IndexError \<or> e = TypeError then
        (case data of
           None \<Rightarrow> ([], Inl UnboundLocalError)
         | Some d \<Rightarrow> ([Print (ErrorParsing e d)], Inr PNone))
      else ([], Inl e))"

definition after :: "event list \<Rightarrow> event list \<times> 'a \<Rightarrow> event list \<times> 'a" where
  "after evs run = (evs @ fst run, snd run)"

text \<open>
  The function itself: the events it causes, in order, and how it ends, \<open>Inr v\<close> for
  \<open>return v\<close> and \<open>Inl e\<close> for an exception that leaves it.
\<close>

definition get_kannada_transliteration ::
  "network \<Rightarrow> pystr \<Rightarrow> event list \<times> (exn + pyval)" where
  "get_kannada_transliteration net input_text =
     (if input_text = [] then ([], Inr (PList []))
      else
        after [HttpGet (build_request input_text)]
          (case net (build_request input_text) of
             Inl e \<Rightarrow> except_clauses None None e
           | Inr response \<Rightarrow>
               (case raise_for_status response of
                  Inl e \<Rightarrow> except_clauses (Some response) None e
                | Inr _ \<Rightarrow>
                    (case resp_json response of
                       Inl e \<Rightarrow> except_clauses (Some response) None e
                     | Inr data \<Rightarrow>
                         (case extract_suggestions data of
                            Inl e \<Rightarrow> except_clauses (Some response) (Some data) e
                          | Inr suggestions \<Rightarrow> ([], Inr suggestions))))))"

section \<open>The interactive loop\<close>

text \<open>
  \<open>str.lower\<close> and \<open>str.strip\<close> are built-ins of the interpreter; the loop takes
  them as parameters.
\<close>

record strlib =
  str_lower :: "pystr \<Rightarrow> pystr"
  str_strip :: "pystr \<Rightarrow> pystr"

text \<open>
  What a \<open>for\<close> loop (through \<open>enumerate\<close>) iterates over: the elements of a list,
  the characters of a string, the keys of a dictionary; anything else is not iterable.
\<close>

fun iterate :: "pyval \<Rightarrow> exn + pyval list" where
  "iterate (PList xs) = Inr xs"
| "iterate (PStr s) = Inr (map (\<lambda>c. PStr [c]) s)"
| "iterate (PDict d) = Inr (map (\<lambda>kv. PStr (fst kv)) d)"
| "iterate PNone = Inl TypeError"
| "iterate (PBool b) = Inl TypeError"
| "iterate (PInt n) = Inl TypeError"
| "iterate (PFloat f) = Inl TypeError"

text \<open>Lines 89 to 97: what the loop prints for the value the function returned.\<close>

definition show_suggestions :: "pyval \<Rightarrow> event list \<times> (exn + unit)" where
  "show_suggestions kannada_suggestions =
     (if kannada_suggestions = PNone then ([Print AnErrorOccurred], Inr ())
      else if \<not> truthy kannada_suggestions then ([Print NoSuggestionsFound], Inr ())
      else
        after [Print SuggestionsHeader]
          (case iterate kannada_suggestions of
             Inl e \<Rightarrow> ([], Inl e)
           | Inr xs \<Rightarrow>
               (map (\<lambda>(i, suggestion). Print (SuggestionLine (i + 1) suggestion))
                  (enumerate 0 xs) @ [Print Separator],
                Inr ())))"

text \<open>
  Lines 80 to 97, over the lines that standard input still holds. \<open>input\<close> writes the
  prompt and raises \<open>EOFError\<close> when no line is left. The loop has no handler of its
  own, so an exception ends the process; \<open>Inr ()\<close> is the normal end after \<open>quit\<close>.
\<close>

fun main_loop :: "strlib \<Rightarrow> network \<Rightarrow> pystr list \<Rightarrow> event list \<times> (exn + unit)" where
  "main_loop lib net [] = ([Print Prompt], Inl EOFError)"
| "main_loop lib net (text_to_convert # stdin) =
     after [Print Prompt]
       (if str_lower lib text_to_convert = py ''quit'' then ([], Inr ())
        else if str_strip lib text_to_convert = [] then main_loop lib net stdin
        else
          (case get_kannada_transliteration net text_to_convert of
             (evs, Inl e) \<Rightarrow> (evs, Inl e)
           | (evs, Inr kannada_suggestions) \<Rightarrow>
               after evs
                 (case show_suggestions kannada_suggestions of
                    (out, Inl e) \<Rightarrow> (out, Inl e)
                  | (out, Inr u) \<Rightarrow> after out (main_loop lib net stdin))))"

section \<open>Vocabulary of the specification\<close>

text \<open>
  The specification names three kinds of failure. The function has no error values, so a
  kind is read off the message that an \<open>except\<close> clause prints.
\<close>

datatype error_kind = TransportError | DecodeError | MalformedResponseError

fun kind_of :: "event \<Rightarrow> error_kind option" where
  "kind_of (Print (ErrorDuringRequest e)) = Some TransportError"
| "kind_of (Print (CouldNotDecode t)) = Some DecodeError"
| "kind_of (Print (ErrorParsing e d)) = Some MalformedResponseError"
| "kind_of _ = None"

definition error_kinds :: "event list \<Rightarrow> error_kind list" where
  "error_kinds evs = List.map_filter kind_of evs"

definition http_requests :: "event list \<Rightarrow> request list" where
  "http_requests evs = List.map_filter (\<lambda>ev. case ev of HttpGet r \<Rightarrow> Some r | _ \<Rightarrow> None) evs"

text \<open>A sequence of strings, the result type that the specification promises.\<close>

fun is_str :: "pyval \<Rightarrow> bool" where
  "is_str (PStr s) = True"
| "is_str _ = False"

fun string_sequence :: "pyval \<Rightarrow> bool" where
  "string_sequence (PList xs) = list_all is_str xs"
| "string_sequence _ = False"

text \<open>
  The decoded responses whose shape the third \<open>except\<close> clause catches, described by
  their structure. An entry has no reachable second element when it is \<open>None\<close>, a
  boolean, a number, or a list or string of fewer than two elements.
\<close>

fun no_second :: "pyval \<Rightarrow> bool" where
  "no_second (PList xs) = (length xs < 2)"
| "no_second (PStr s) = (length s < 2)"
| "no_second (PDict d) = False"
| "no_second PNone = True"
| "no_second (PBool b) = True"
| "no_second (PInt n) = True"
| "no_second (PFloat f) = True"

text \<open>
  A payload that is truthy and from which no suggestions can be read: a true boolean, a
  non-zero number, a non-empty string (its first character is a string of length one), or
  a list whose first entry has no reachable second element.
\<close>

fun bad_payload :: "pyval \<Rightarrow> bool" where
  "bad_payload (PList []) = False"
| "bad_payload (PList (entry # entries)) = no_second entry"
| "bad_payload (PStr s) = (s \<noteq> [])"
| "bad_payload (PDict d) = False"
| "bad_payload PNone = False"
| "bad_payload (PBool b) = b"
| "bad_payload (PInt n) = (n \<noteq> 0)"
| "bad_payload (PFloat f) = truthy (PFloat f)"

fun caught_malformed :: "pyval \<Rightarrow> bool" where
  "caught_malformed (PList []) = True"
| "caught_malformed (PList [status]) = (status = PStr SUCCESS)"
| "caught_malformed (PList (status # payload # rest)) =
     (status = PStr SUCCESS \<and> bad_payload payload)"
| "caught_malformed (PStr s) = (s = [])"
| "caught_malformed (PDict d) = False"
| "caught_malformed PNone = True"
| "caught_malformed (PBool b) = True"
| "caught_malformed (PInt n) = True"
| "caught_malformed (PFloat f) = True"

text \<open>
  The decoded responses on which the test of line 61 is false without raising: a list
  whose first element is not the success marker, or whose second element is falsy
  (\<open>None\<close>, \<open>False\<close>, a zero, an empty string, list or dictionary), and a non-empty
  string, whose first character is never the seven-character marker.
\<close>

fun reads_as_empty :: "pyval \<Rightarrow> bool" where
  "reads_as_empty (PList []) = False"
| "reads_as_empty (PList [status]) = (status \<noteq> PStr SUCCESS)"
| "reads_as_empty (PList (status # payload # rest)) =
     (status \<noteq> PStr SUCCESS \<or> \<not> truthy payload)"
| "reads_as_empty (PStr s) = (s \<noteq> [])"
| "reads_as_empty (PDict d) = False"
| "reads_as_empty PNone = False"
| "reads_as_empty (PBool b) = False"
| "reads_as_empty (PInt n) = False"
| "reads_as_empty (PFloat f) = False"



section \<open>Concrete providers\<close>

text \<open>A network that answers every request with the same response, or fails every request.\<close>

definition answers :: "nat \<Rightarrow> pystr \<Rightarrow> exn + pyval \<Rightarrow> network" where
  "answers status body decoded =
     (\<lambda>req. Inr \<lparr>status_code = status, resp_text = body, resp_json = decoded\<rparr>)"

definition fails :: "exn \<Rightarrow> network" where
  "fails e = (\<lambda>req. Inl e)"

definition hello :: pystr where
  "hello = py ''hello''"

text \<open>The Kannada strings of the specification's example, U+0CB9 and U+0CB9 U+0CB2.\<close>

definition ha :: pystr where
  "ha = [3257]"

definition hala :: pystr where
  "hala = [3257, 3250]"

definition hello_data :: pyval where
  "hello_data =
     PList [PStr SUCCESS,
            PList [PList [PStr hello, PList [PStr ha, PStr hala], PList [], PDict []]]]"

definition hello_body :: pystr where
  "hello_body =
     py ''[\"SUCCESS\", [[\"hello\", [\"'' @ [92] @ py ''u0cb9\", \"'' @ [92] @ py ''u0cb9''
       @ [92] @ py ''u0cb2\"], [], {}]]]''"

text \<open>An ASCII rendering of the two string built-ins, for running the loop.\<close>

definition ascii_lower :: "pystr \<Rightarrow> pystr" where
  "ascii_lower s = map (\<lambda>c. if 65 \<le> c \<and> c \<le> 90 then c + 32 else c) s"

definition ascii_strip :: "pystr \<Rightarrow> pystr" where
  "ascii_strip s =
     rev (dropWhile (\<lambda>c. c \<in> {9, 10, 11, 12, 13, 32})
       (rev (dropWhile (\<lambda>c. c \<in> {9, 10, 11, 12, 13, 32}) s)))"

definition ascii_lib :: strlib where
  "ascii_lib = \<lparr>str_lower = ascii_lower, str_strip = ascii_strip\<rparr>"

text \<open>A response with six suggestions, one more than the \<open>num\<close> the program asks for.\<close>

definition six :: "pyval list" where
  "six = [PStr (py ''a''), PStr (py ''b''), PStr (py ''c''), PStr (py ''d''),
          PStr (py ''e''), PStr (py ''f'')]"

definition six_data :: pyval where
  "six_data = PList [PStr SUCCESS, PList [PList [PStr (py ''abc''), PList six, PList [], PDict []]]]"

definition six_body :: pystr where
  "six_body =
     py ''[\"SUCCESS\", [[\"abc\", [\"a\", \"b\", \"c\", \"d\", \"e\", \"f\"], [], {}]]]''"

section \<open>Auxiliary facts\<close>

lemma run_decoded:
  assumes "input_text \<noteq> []"
    and "net (build_request input_text) = Inr response"
    and "status_code response < 400 \<or> 600 \<le> status_code response"
    and "resp_json response = Inr data"
  shows "get_kannada_transliteration net input_text =
           after [HttpGet (build_request input_text)]
             (case extract_suggestions data of
                Inl e \<Rightarrow> except_clauses (Some response) (Some data) e
              | Inr suggestions \<Rightarrow> ([], Inr suggestions))"
  using assms by (auto simp: get_kannada_transliteration_def raise_for_status_def)

lemma extract_well_formed:
  "extract_suggestions
     (PList (PStr SUCCESS # PList (PList (echoed # suggestions # others) # entries) # rest)) =
   Inr suggestions"
  by (simp add: extract_suggestions_def bind_def)

lemma extract_no_results:
  assumes "status \<noteq> PStr SUCCESS \<or> (\<exists>others. rest = PList [] # others)"
  shows "extract_suggestions (PList (status # rest)) = Inr (PList [])"
  using assms by (auto simp: extract_suggestions_def bind_def)

lemma no_second_raises:
  "no_second entry \<Longrightarrow> getitem entry 1 = Inl IndexError \<or> getitem entry 1 = Inl TypeError"
  by (cases entry) auto

lemma bad_payload_raises:
  assumes "bad_payload payload"
  shows "bind (getitem payload 0) (\<lambda>entry. getitem entry 1) = Inl IndexError
       \<or> bind (getitem payload 0) (\<lambda>entry. getitem entry 1) = Inl TypeError"
proof (cases payload)
  case (PList xs)
  with assms obtain entry entries where xs: "xs = entry # entries" and "no_second entry"
    by (cases xs) auto
  with no_second_raises [of entry] PList show ?thesis
    by (auto simp: bind_def)
qed (use assms in \<open>auto simp: bind_def\<close>)

lemma bad_payload_truthy: "bad_payload payload \<Longrightarrow> truthy payload"
  by (cases payload rule: bad_payload.cases) auto

lemma extract_caught:
  assumes "caught_malformed data"
  shows "extract_suggestions data = Inl IndexError \<or> extract_suggestions data = Inl TypeError"
proof (cases data rule: caught_malformed.cases)
  case (3 status payload rest)
  with assms have "status = PStr SUCCESS" and bad: "bad_payload payload"
    by auto
  with 3 bad_payload_raises [OF bad] bad_payload_truthy [OF bad] show ?thesis
    by (auto simp: extract_suggestions_def bind_def)
qed (use assms in \<open>auto simp: extract_suggestions_def bind_def\<close>)

lemma extract_reads_as_empty:
  assumes "reads_as_empty data"
  shows "extract_suggestions data = Inr (PList [])"
proof (cases data rule: reads_as_empty.cases)
  case (4 s)
  have "[s ! 0] \<noteq> SUCCESS"
    by (simp add: SUCCESS_def py_def)
  with assms 4 show ?thesis
    by (simp add: extract_suggestions_def bind_def)
qed (use assms in \<open>auto simp: extract_suggestions_def bind_def\<close>)

lemma except_clauses_returns:
  "snd (except_clauses response data e) = Inr v \<Longrightarrow> v = PNone"
  by (auto simp: except_clauses_def split: if_splits option.splits)

text \<open>
  The function validates nothing: a value it returns is \<open>None\<close>, the empty list, or
  exactly what the response holds at \<open>data[1][0][1]\<close>.
\<close>

lemma returned_value_exact:
  assumes "snd (get_kannada_transliteration net input_text) = Inr v"
  shows "v = PNone \<or> v = PList [] \<or>
         (\<exists>response data payload entry.
            net (build_request input_text) = Inr response \<and> resp_json response = Inr data
            \<and> getitem data 0 = Inr (PStr SUCCESS)
            \<and> getitem data 1 = Inr payload \<and> getitem payload 0 = Inr entry
            \<and> getitem entry 1 = Inr v)"
proof (cases "input_text = []")
  case True
  with assms show ?thesis
    by (auto simp: get_kannada_transliteration_def)
next
  case False
  with assms show ?thesis
    by (auto simp: get_kannada_transliteration_def after_def extract_suggestions_def bind_def
        split: sum.splits if_splits dest: except_clauses_returns)
qed



section \<open>Claims\<close>

text \<open>
  Claim C1. For a decoded response of the success shape, a list that starts with the
  string \<open>SUCCESS\<close> followed by a non-empty payload list whose first entry is a list
  of at least two elements, the function makes its one request and returns exactly the
  second element of that first entry. The witness is the example of the specification:
  the response for \<open>hello\<close> yields the two Kannada suggestions.
\<close>

theorem success_returns_suggestions:
  assumes "input_text \<noteq> []"
    and "net (build_request input_text) = Inr response"
    and "status_code response < 400 \<or> 600 \<le> status_code response"
    and "resp_json response =
           Inr (PList (PStr SUCCESS # PList (PList (echoed # suggestions # others) # entries) # rest))"
  shows "get_kannada_transliteration net input_text =
           ([HttpGet (build_request input_text)], Inr suggestions)"
  using assms
    run_decoded [of input_text net response
      "PList (PStr SUCCESS # PList (PList (echoed # suggestions # others) # entries) # rest)"]
  by (simp add: extract_well_formed after_def)

theorem success_returns_suggestions_witness:
  "hello \<noteq> []
   \<and> answers 200 hello_body (Inr hello_data) (build_request hello) =
       Inr \<lparr>status_code = 200, resp_text = hello_body, resp_json = Inr hello_data\<rparr>
   \<and> hello_data =
       PList (PStr SUCCESS # PList (PList (PStr hello # PList [PStr ha, PStr hala]
         # [PList [], PDict []]) # []) # [])
   \<and> get_kannada_transliteration (answers 200 hello_body (Inr hello_data)) hello =
       ([HttpGet (build_request hello)], Inr (PList [PStr [3257], PStr [3257, 3250]]))"
  using success_returns_suggestions [of hello "answers 200 hello_body (Inr hello_data)"
      "\<lparr>status_code = 200, resp_text = hello_body, resp_json = Inr hello_data\<rparr>"
      "PStr hello" "PList [PStr ha, PStr hala]" "[PList [], PDict []]" "[]" "[]"]
  by (simp add: hello_def py_def answers_def hello_data_def ha_def hala_def)

text \<open>
  Claim C2, as stated, fails: a response whose payload is the number \<open>0\<close> instead of
  an array has the wrong types, yet the test \<open>data[0] == "SUCCESS" and data[1]\<close> is
  simply false on it and the function returns the empty list, a success outcome with no
  error reported. The \<open>else\<close> branch is documented in the source as covering an
  "unexpected structure".
\<close>

theorem malformed_payload_counterexample:
  "\<not> caught_malformed (PList [PStr SUCCESS, PInt 0])
   \<and> get_kannada_transliteration
       (answers 200 (py ''[\"SUCCESS\", 0]'') (Inr (PList [PStr SUCCESS, PInt 0]))) hello =
     ([HttpGet (build_request hello)], Inr (PList []))"
  by (simp add: get_kannada_transliteration_def answers_def raise_for_status_def
      extract_suggestions_def bind_def after_def hello_def py_def)

text \<open>
  Claim C2, amended. When the indexing of lines 61 and 62 raises \<open>IndexError\<close> or
  \<open>TypeError\<close>, which is the case exactly for the shapes that \<open>caught_malformed\<close>
  lists (a top level that is not subscriptable or is empty, a missing payload after the
  success marker, or a truthy payload whose first entry has no reachable second element),
  the function makes its one request, prints the parse error with that exception and the
  decoded structure, and returns \<open>None\<close>. The other mismatching shapes that
  \<open>reads_as_empty\<close> lists are not reported: a list whose first element is not the
  success marker, or whose second element is falsy (\<open>0\<close>, \<open>null\<close>, \<open>false\<close>,
  \<open>0.0\<close>, \<open>""\<close>, \<open>{}\<close>), and a non-empty top-level string, yield the empty list
  after the one request, with nothing printed. The witness is the specification's example
  of an entry without its suggestions element, and the payloads \<open>null\<close> and \<open>{}\<close>.
\<close>

theorem malformed_reported_or_empty:
  assumes "input_text \<noteq> []"
    and "net (build_request input_text) = Inr response"
    and "status_code response < 400 \<or> 600 \<le> status_code response"
    and "resp_json response = Inr data"
  shows "(caught_malformed data \<longrightarrow>
           (\<exists>e. (e = IndexError \<or> e = TypeError) \<and>
              get_kannada_transliteration net input_text =
                ([HttpGet (build_request input_text), Print (ErrorParsing e data)], Inr PNone)))
       \<and> (reads_as_empty data \<longrightarrow>
            get_kannada_transliteration net input_text =
              ([HttpGet (build_request input_text)], Inr (PList [])))"
proof (intro conjI impI)
  assume "caught_malformed data"
  from extract_caught [OF this] run_decoded [of input_text net response data] assms
  show "\<exists>e. (e = IndexError \<or> e = TypeError) \<and>
          get_kannada_transliteration net input_text =
            ([HttpGet (build_request input_text), Print (ErrorParsing e data)], Inr PNone)"
    by (auto simp: except_clauses_def after_def)
next
  assume "reads_as_empty data"
  from extract_reads_as_empty [OF this] run_decoded [of input_text net response data] assms
  show "get_kannada_transliteration net input_text =
          ([HttpGet (build_request input_text)], Inr (PList []))"
    by (simp add: after_def)
qed

theorem malformed_reported_or_empty_witness:
  "hello \<noteq> []
   \<and> caught_malformed (PList [PStr SUCCESS, PList [PList [PStr (py ''x'')]]])
   \<and> (\<exists>e. (e = IndexError \<or> e = TypeError) \<and>
        get_kannada_transliteration
          (answers 200 (py ''[\"SUCCESS\", [[\"x\"]]]'')
             (Inr (PList [PStr SUCCESS, PList [PList [PStr (py ''x'')]]]))) hello =
        ([HttpGet (build_request hello),
          Print (ErrorParsing e (PList [PStr SUCCESS, PList [PList [PStr (py ''x'')]]]))],
         Inr PNone))
   \<and> reads_as_empty (PList [PStr SUCCESS, PNone])
   \<and> get_kannada_transliteration
       (answers 200 (py ''[\"SUCCESS\", null]'') (Inr (PList [PStr SUCCESS, PNone]))) hello =
     ([HttpGet (build_request hello)], Inr (PList []))
   \<and> reads_as_empty (PList [PStr SUCCESS, PDict []])
   \<and> get_kannada_transliteration
       (answers 200 (py ''[\"SUCCESS\", {}]'') (Inr (PList [PStr SUCCESS, PDict []]))) hello =
     ([HttpGet (build_request hello)], Inr (PList []))"
  using malformed_reported_or_empty [of hello
      "answers 200 (py ''[\"SUCCESS\", [[\"x\"]]]'')
         (Inr (PList [PStr SUCCESS, PList [PList [PStr (py ''x'')]]]))"
      "\<lparr>status_code = 200, resp_text = py ''[\"SUCCESS\", [[\"x\"]]]'',
        resp_json = Inr (PList [PStr SUCCESS, PList [PList [PStr (py ''x'')]]])\<rparr>"
      "PList [PStr SUCCESS, PList [PList [PStr (py ''x'')]]]"]
    malformed_reported_or_empty [of hello
      "answers 200 (py ''[\"SUCCESS\", null]'') (Inr (PList [PStr SUCCESS, PNone]))"
      "\<lparr>status_code = 200, resp_text = py ''[\"SUCCESS\", null]'',
        resp_json = Inr (PList [PStr SUCCESS, PNone])\<rparr>"
      "PList [PStr SUCCESS, PNone]"]
    malformed_reported_or_empty [of hello
      "answers 200 (py ''[\"SUCCESS\", {}]'') (Inr (PList [PStr SUCCESS, PDict []]))"
      "\<lparr>status_code = 200, resp_text = py ''[\"SUCCESS\", {}]'',
        resp_json = Inr (PList [PStr SUCCESS, PDict []])\<rparr>"
      "PList [PStr SUCCESS, PDict []]"]
  by (simp add: hello_def py_def answers_def)

text \<open>
  Claim C3. For a decoded response that is a list whose first element is not the string
  \<open>SUCCESS\<close>, or whose second element is the empty list, the function makes its one
  request and returns the empty list; nothing is printed, so none of the three error kinds
  is reported. The witness is the response \<open>["SUCCESS", []]\<close>.
\<close>

theorem no_results_empty:
  assumes "input_text \<noteq> []"
    and "net (build_request input_text) = Inr response"
    and "status_code response < 400 \<or> 600 \<le> status_code response"
    and "resp_json response = Inr (PList (status # rest))"
    and "status \<noteq> PStr SUCCESS \<or> (\<exists>others. rest = PList [] # others)"
  shows "get_kannada_transliteration net input_text =
           ([HttpGet (build_request input_text)], Inr (PList []))
         \<and> error_kinds (fst (get_kannada_transliteration net input_text)) = []"
  using run_decoded [of input_text net response "PList (status # rest)"] assms(1-4)
    extract_no_results [OF assms(5)]
  by (simp add: after_def error_kinds_def List.map_filter_simps)

theorem no_results_empty_witness:
  "hello \<noteq> []
   \<and> get_kannada_transliteration
       (answers 200 (py ''[\"SUCCESS\", []]'') (Inr (PList [PStr SUCCESS, PList []]))) hello =
     ([HttpGet (build_request hello)], Inr (PList []))
   \<and> error_kinds (fst (get_kannada_transliteration
       (answers 200 (py ''[\"SUCCESS\", []]'') (Inr (PList [PStr SUCCESS, PList []]))) hello)) = []"
  using no_results_empty [of hello
      "answers 200 (py ''[\"SUCCESS\", []]'') (Inr (PList [PStr SUCCESS, PList []]))"
      "\<lparr>status_code = 200, resp_text = py ''[\"SUCCESS\", []]'',
        resp_json = Inr (PList [PStr SUCCESS, PList []])\<rparr>"
      "PStr SUCCESS" "[PList []]"]
  by (simp add: hello_def py_def answers_def error_kinds_def List.map_filter_simps)

text \<open>
  Claim C4, as stated, fails: the function has no truncation step. For a response with
  six suggestions it returns all six, which differs from the first five.
\<close>

theorem six_suggestions_counterexample:
  "length six = 6
   \<and> get_kannada_transliteration (answers 200 six_body (Inr six_data)) hello =
       ([HttpGet (build_request hello)], Inr (PList six))
   \<and> PList six \<noteq> PList (take 5 six)"
  by (simp add: get_kannada_transliteration_def answers_def raise_for_status_def
      extract_suggestions_def bind_def after_def hello_def py_def six_data_def six_def)

text \<open>
  Claim C4, amended. For a response of the success shape whose suggestions list has more
  than five entries, the function returns the whole list, every entry in its original
  order. The limit of five only travels to the provider, as the \<open>num\<close> parameter of the
  request.
\<close>

theorem long_suggestions_returned_whole:
  assumes "input_text \<noteq> []"
    and "net (build_request input_text) = Inr response"
    and "status_code response < 400 \<or> 600 \<le> status_code response"
    and "resp_json response =
           Inr (PList (PStr SUCCESS # PList (PList (echoed # PList suggestions # others) # entries)
             # rest))"
    and "5 < length suggestions"
  shows "snd (get_kannada_transliteration net input_text) = Inr (PList suggestions)
         \<and> (py ''num'', PInt 5) \<in> set (params (build_request input_text))"
  using assms(1-4)
    run_decoded [of input_text net response
      "PList (PStr SUCCESS # PList (PList (echoed # PList suggestions # others) # entries) # rest)"]
  by (simp add: extract_well_formed after_def build_request_def)

theorem long_suggestions_returned_whole_witness:
  "hello \<noteq> [] \<and> 5 < length six
   \<and> snd (get_kannada_transliteration (answers 200 six_body (Inr six_data)) hello) =
       Inr (PList six)
   \<and> (py ''num'', PInt 5) \<in> set (params (build_request hello))"
  using long_suggestions_returned_whole [of hello "answers 200 six_body (Inr six_data)"
      "\<lparr>status_code = 200, resp_text = six_body, resp_json = Inr six_data\<rparr>"
      "PStr (py ''abc'')" six "[PList [], PDict []]" "[]" "[]"]
  by (simp add: hello_def py_def answers_def six_data_def six_def)

text \<open>
  Claim C5. For the empty input the function returns the empty list at once: its trace is
  empty, so no request is made, whatever the network would answer.
\<close>

theorem empty_input_no_request:
  "get_kannada_transliteration net [] = ([], Inr (PList []))
   \<and> http_requests (fst (get_kannada_transliteration net [])) = []"
  by (simp add: get_kannada_transliteration_def http_requests_def List.map_filter_simps)

text \<open>
  Claim C6 against the code. The value at \<open>data[1][0][1]\<close> is returned without any
  check, although the function documents its result as a list of suggestions or
  \<open>None\<close>. When the provider puts the number \<open>42\<close> there, the function returns
  \<open>42\<close>: a result that is neither a sequence of strings nor a failure. The loop takes
  it for a list of suggestions, prints the header, and ends with the \<open>TypeError\<close> of
  \<open>enumerate\<close> before reading the next line.
\<close>

theorem non_sequence_result_ends_loop:
  "get_kannada_transliteration
     (answers 200 (py ''[\"SUCCESS\", [[\"x\", 42]]]'')
        (Inr (PList [PStr SUCCESS, PList [PList [PStr (py ''x''), PInt 42]]]))) hello =
     ([HttpGet (build_request hello)], Inr (PInt 42))
   \<and> \<not> string_sequence (PInt 42) \<and> PInt 42 \<noteq> PNone
   \<and> main_loop ascii_lib
       (answers 200 (py ''[\"SUCCESS\", [[\"x\", 42]]]'')
          (Inr (PList [PStr SUCCESS, PList [PList [PStr (py ''x''), PInt 42]]])))
       [hello, py ''quit''] =
     ([Print Prompt, HttpGet (build_request hello), Print SuggestionsHeader], Inl TypeError)"
  by (simp add: get_kannada_transliteration_def answers_def raise_for_status_def
      extract_suggestions_def bind_def after_def hello_def py_def show_suggestions_def
      ascii_lib_def ascii_lower_def ascii_strip_def)

text \<open>
  The second \<open>except\<close> clause does what it is written for when \<open>response.json()\<close>
  raises the decoder's exception of the standard library, which is not a
  \<open>RequestException\<close>: the message carries \<open>response.text\<close>.
\<close>

lemma decode_error_reported_std:
  assumes "input_text \<noteq> []"
    and "net (build_request input_text) = Inr response"
    and "status_code response < 400 \<or> 600 \<le> status_code response"
    and "resp_json response = Inl e"
    and "is_JSONDecodeError e" and "\<not> is_RequestException e"
  shows "get_kannada_transliteration net input_text =
           ([HttpGet (build_request input_text), Print (CouldNotDecode (resp_text response))],
            Inr PNone)"
  using assms
  by (auto simp: get_kannada_transliteration_def raise_for_status_def except_clauses_def
      after_def)

text \<open>
  Claim C7 against the code. From requests 2.27 on, \<open>response.json()\<close> raises
  \<open>requests.exceptions.JSONDecodeError\<close>, which is also a \<open>RequestException\<close>. The
  first \<open>except\<close> clause comes first in the source and catches it: for the body
  \<open><html>\<close> the run prints the request-error message, which does not carry the
  response text, and is reported as a transport failure. The clause of lines 71 to 73 is
  never reached for this exception.
\<close>

theorem decode_failure_reported_as_request_error:
  "is_JSONDecodeError RequestsJSONDecodeError \<and> is_RequestException RequestsJSONDecodeError
   \<and> get_kannada_transliteration
       (answers 200 (py ''<html>'') (Inl RequestsJSONDecodeError)) hello =
     ([HttpGet (build_request hello), Print (ErrorDuringRequest RequestsJSONDecodeError)],
      Inr PNone)
   \<and> error_kinds (fst (get_kannada_transliteration
       (answers 200 (py ''<html>'') (Inl RequestsJSONDecodeError)) hello)) = [TransportError]"
  by (simp add: get_kannada_transliteration_def answers_def raise_for_status_def
      except_clauses_def after_def hello_def py_def error_kinds_def List.map_filter_simps)

text \<open>
  Claim C8, as stated, fails for the status codes outside 2xx that are not 4xx or 5xx:
  \<open>raise_for_status\<close> lets them pass. A response with status 300 and the body
  \<open>["SUCCESS", []]\<close> yields the empty list, not a failure.
\<close>

theorem redirect_status_counterexample:
  "\<not> (200 \<le> (300::nat) \<and> (300::nat) < 300)
   \<and> get_kannada_transliteration
       (answers 300 (py ''[\"SUCCESS\", []]'') (Inr (PList [PStr SUCCESS, PList []]))) hello =
     ([HttpGet (build_request hello)], Inr (PList []))"
  by (simp add: get_kannada_transliteration_def answers_def raise_for_status_def
      extract_suggestions_def bind_def after_def hello_def py_def)

text \<open>
  Claim C8, amended. When \<open>requests.get\<close> raises a \<open>RequestException\<close> (connection
  error, timeout), or the response has a 4xx or 5xx status, the function prints the
  request-error message with that cause and returns \<open>None\<close>; its trace holds exactly
  one request, so there is no retry. The witness covers HTTP 500 and a connection error.
\<close>

theorem transport_failure_reported:
  assumes "input_text \<noteq> []"
    and "(net (build_request input_text) = Inl cause \<and> is_RequestException cause)
       \<or> (\<exists>response. net (build_request input_text) = Inr response
             \<and> 400 \<le> status_code response \<and> status_code response < 600
             \<and> cause = HTTPError (status_code response))"
  shows "get_kannada_transliteration net input_text =
           ([HttpGet (build_request input_text), Print (ErrorDuringRequest cause)], Inr PNone)
         \<and> length (http_requests (fst (get_kannada_transliteration net input_text))) = 1"
  using assms
  by (auto simp: get_kannada_transliteration_def raise_for_status_def except_clauses_def
      after_def http_requests_def List.map_filter_simps)

theorem transport_failure_reported_witness:
  "hello \<noteq> []
   \<and> get_kannada_transliteration (answers 500 (py ''Internal Server Error'') (Inl JSONDecodeError))
       hello =
     ([HttpGet (build_request hello), Print (ErrorDuringRequest (HTTPError 500))], Inr PNone)
   \<and> length (http_requests (fst (get_kannada_transliteration
       (answers 500 (py ''Internal Server Error'') (Inl JSONDecodeError)) hello))) = 1
   \<and> get_kannada_transliteration (fails ConnectionError) hello =
     ([HttpGet (build_request hello), Print (ErrorDuringRequest ConnectionError)], Inr PNone)"
  using transport_failure_reported [of hello
      "answers 500 (py ''Internal Server Error'') (Inl JSONDecodeError)" "HTTPError 500"]
    transport_failure_reported [of hello "fails ConnectionError" ConnectionError]
  by (simp add: hello_def py_def answers_def fails_def http_requests_def
      List.map_filter_simps)

text \<open>
  Claim C9 against the code. When the provider answers with a JSON object, \<open>data[0]\<close>
  raises \<open>KeyError\<close>, which none of the three \<open>except\<close> clauses names: the exception
  leaves the function, and the loop, which has no handler, ends with it before reading
  the next line.
\<close>

theorem object_response_raises_KeyError:
  "get_kannada_transliteration (answers 200 (py ''{}'') (Inr (PDict []))) hello =
     ([HttpGet (build_request hello)], Inl KeyError)
   \<and> main_loop ascii_lib (answers 200 (py ''{}'') (Inr (PDict []))) [hello, py ''quit''] =
     ([Print Prompt, HttpGet (build_request hello)], Inl KeyError)"
  by (simp add: get_kannada_transliteration_def answers_def raise_for_status_def
      extract_suggestions_def bind_def after_def hello_def py_def except_clauses_def
      ascii_lib_def ascii_lower_def ascii_strip_def)



end
